theory Spec2Isabelle
  imports Main "HOL-Library.Word"
begin

section \<open>Values of the program\<close>

text \<open>
  A Python \<open>str\<close> is modelled as a \<open>string\<close> whose characters are the code points
  below 256 (Latin-1); \<open>bytes\<close> are lists of 8-bit words. The objects handed to
  \<open>FileDownloader\<close> and to \<open>st.download_button\<close> are a \<open>str\<close>, a \<open>bytes\<close> buffer or
  a pandas \<open>DataFrame\<close>.
\<close>

type_synonym byte = "8 word"
type_synonym bytes = "byte list"

text \<open>
  A \<open>DataFrame\<close> is column oriented: named columns in schema order, each with its
  cells, and the row labels (the index). Cells and labels are kept in the text form
  that pandas writes for them.
\<close>

record dataframe =
  df_columns :: "(string \<times> string list) list"
  df_index :: "string list"

datatype pyobj = PStr string | PBytes bytes | PFrame dataframe

datatype pyexn =
    KeyError string | UnidentifiedImageError | OSError | IndexError | LargeZipFile
  | ValueError | RuntimeError | StructError

subsection \<open>\<open>str.lower\<close>, \<open>str.upper\<close>, \<open>str.encode\<close>, \<open>str(bytes)\<close>\<close>

definition chr_lower :: "char \<Rightarrow> char" where
  "chr_lower c = (let n = (of_char c :: nat) in
     if (65 \<le> n \<and> n \<le> 90) \<or> (192 \<le> n \<and> n \<le> 222 \<and> n \<noteq> 215)
     then char_of (n + 32) else c)"

definition str_lower :: "string \<Rightarrow> string" where
  "str_lower s = map chr_lower s"

text \<open>
  The upper-case forms of U+00B5 and U+00FF lie outside Latin-1; the model leaves
  these two characters as they are. U+00DF becomes \<open>SS\<close>, as in Python.
\<close>

definition chr_upper :: "char \<Rightarrow> string" where
  "chr_upper c = (let n = (of_char c :: nat) in
     if (97 \<le> n \<and> n \<le> 122) \<or> (224 \<le> n \<and> n \<le> 254 \<and> n \<noteq> 247)
     then [char_of (n - 32)]
     else if n = 223 then ''SS'' else [c])"

definition str_upper :: "string \<Rightarrow> string" where
  "str_upper s = concat (map chr_upper s)"

text \<open>\<open>str.encode()\<close>: UTF-8, one byte below 128 and two bytes from 128 to 255.\<close>

definition utf8_char :: "char \<Rightarrow> bytes" where
  "utf8_char c = (let n = (of_char c :: nat) in
     if n < 128 then [of_nat n]
     else [of_nat (192 + n div 64), of_nat (128 + n mod 64)])"

definition encode :: "string \<Rightarrow> bytes" where
  "encode s = concat (map utf8_char s)"

text \<open>
  \<open>str(b)\<close> of a bytes object is its \<open>repr\<close>: \<open>b'...'\<close>, in double quotes when the
  buffer holds a single quote and no double quote, with the quote and the backslash
  escaped, tab, line feed and carriage return as \<open>\t\<close>, \<open>\n\<close>, \<open>\r\<close>, and every other
  byte outside the printable ASCII range as \<open>\xhh\<close>.
\<close>

definition hex_digit :: "nat \<Rightarrow> char" where
  "hex_digit d = (if d < 10 then char_of (48 + d) else char_of (87 + d))"

definition repr_byte :: "char \<Rightarrow> byte \<Rightarrow> string" where
  "repr_byte quote b = (let n = unat b in
     if n = of_char quote \<or> n = 92 then [CHR 0x5C, char_of n]
     else if n = 9 then [CHR 0x5C, CHR ''t'']
     else if n = 10 then [CHR 0x5C, CHR ''n'']
     else if n = 13 then [CHR 0x5C, CHR ''r'']
     else if n < 32 \<or> 127 \<le> n then [CHR 0x5C, CHR ''x'', hex_digit (n div 16), hex_digit (n mod 16)]
     else [char_of n])"

definition bytes_repr :: "bytes \<Rightarrow> string" where
  "bytes_repr bs = (let quote = (if List.member bs 39 \<and> \<not> List.member bs 34 then CHR 0x22 else CHR 0x27)
     in [CHR ''b'', quote] @ concat (map (repr_byte quote) bs) @ [quote])"

subsection \<open>The libraries the program calls\<close>

text \<open>
  The module-level state of \<open>app.py\<close> and the library calls whose results the program
  only passes on. \<open>excel_write engine data buffer\<close> stands for
  \<open>with pd.ExcelWriter(output, engine=engine) as writer: data.to_excel(writer, ...)\<close>:
  it returns the content of the buffer afterwards, and the exception if one was raised.
  \<open>to_string\<close> is \<open>DataFrame.to_string()\<close>, \<open>frame_repr\<close> is \<open>str\<close> of a DataFrame,
  \<open>exn_text\<close> is \<open>str\<close> of an exception.
\<close>

datatype engine = Xlsxwriter | Openpyxl

record env =
  XLSXWRITER_AVAILABLE :: bool
  OPENPYXL_AVAILABLE :: bool
  PILLOW_AVAILABLE :: bool
  timestr :: string
  excel_write :: "engine \<Rightarrow> dataframe \<Rightarrow> bytes \<Rightarrow> bytes \<times> pyexn option"
  to_string :: "dataframe \<Rightarrow> string"
  frame_repr :: "dataframe \<Rightarrow> string"
  exn_text :: "pyexn \<Rightarrow> string"

text \<open>
  What the program shows: only the widgets that carry exported data or report a
  failure are recorded.
\<close>

datatype ui_event =
    Warning string
  | Error string
  | DownloadButton (btn_label: string) (btn_data: pyobj) (btn_file_name: string)
      (btn_mime: string) (btn_help: "string option")

fun is_frame :: "pyobj \<Rightarrow> bool" where
  "is_frame (PFrame _) = True"
| "is_frame _ = False"

fun is_download :: "ui_event \<Rightarrow> bool" where
  "is_download (DownloadButton _ _ _ _ _) = True"
| "is_download _ = False"

text \<open>\<open>st.download_button\<close> serves a \<open>str\<close> as its UTF-8 encoding and bytes as they are.\<close>

fun served_bytes :: "pyobj \<Rightarrow> bytes option" where
  "served_bytes (PStr s) = Some (encode s)"
| "served_bytes (PBytes b) = Some b"
| "served_bytes (PFrame _) = None"

subsection \<open>\<open>DataFrame.to_csv\<close>\<close>

text \<open>
  The writer as pandas documents it for text cells, with the quoting of the \<open>csv\<close>
  module of Python that it writes through: minimal quoting (a field is quoted
  when it holds the separator, the quote character or a line break, with quotes
  doubled), a record whose only field is empty is written as two quotes, lines end
  with a line feed, and with \<open>index=True\<close> (the default) the row labels are the first
  field of every line, under an empty header.
\<close>

definition csv_field :: "char \<Rightarrow> string \<Rightarrow> string" where
  "csv_field sep s =
     (if list_ex (\<lambda>c. c = sep \<or> c = CHR 0x22 \<or> c = CHR 0x0A \<or> c = CHR 0x0D) s
      then [CHR 0x22] @ concat (map (\<lambda>c. if c = CHR 0x22 then [c, c] else [c]) s) @ [CHR 0x22]
      else s)"

fun join :: "string \<Rightarrow> string list \<Rightarrow> string" where
  "join sep [] = []"
| "join sep [x] = x"
| "join sep (x # y # ys) = x @ sep @ join sep (y # ys)"

definition csv_line :: "char \<Rightarrow> string list \<Rightarrow> string" where
  "csv_line sep row =
     (if row = [[]] then [CHR 0x22, CHR 0x22]
      else join [sep] (map (csv_field sep) row)) @ [CHR 0x0A]"

fun cell_hd :: "string list \<Rightarrow> string" where
  "cell_hd [] = []"
| "cell_hd (c # _) = c"

fun frame_rows :: "string list \<Rightarrow> string list list \<Rightarrow> (string \<times> string list) list" where
  "frame_rows [] cols = []"
| "frame_rows (i # is) cols = (i, map cell_hd cols) # frame_rows is (map tl cols)"

definition csv_records :: "bool \<Rightarrow> dataframe \<Rightarrow> string list list" where
  "csv_records index df =
     ((if index then [[]] else []) @ map fst (df_columns df))
     # map (\<lambda>(i, cells). (if index then [i] else []) @ cells)
         (frame_rows (df_index df) (map snd (df_columns df)))"

definition to_csv :: "bool \<Rightarrow> char \<Rightarrow> dataframe \<Rightarrow> string" where
  "to_csv index sep df = concat (map (csv_line sep) (csv_records index df))"

text \<open>The header of a CSV text is its first line.\<close>

definition csv_header :: "string \<Rightarrow> string" where
  "csv_header csv = takeWhile (\<lambda>c. c \<noteq> CHR 0x0A) csv"

text \<open>
  The keyword arguments of \<open>to_csv\<close> that occur in the program; an argument that is
  not given takes the default of pandas (\<open>index=True\<close>, \<open>sep=','\<close>).
\<close>

record csv_kwargs =
  kw_index :: "bool option"
  kw_sep :: "char option"

definition no_kwargs :: csv_kwargs where
  "no_kwargs = \<lparr>kw_index = None, kw_sep = None\<rparr>"

definition to_csv_kwargs :: "csv_kwargs \<Rightarrow> dataframe \<Rightarrow> string" where
  "to_csv_kwargs kw df =
     to_csv (case kw_index kw of None \<Rightarrow> True | Some b \<Rightarrow> b)
            (case kw_sep kw of None \<Rightarrow> CHR '','' | Some c \<Rightarrow> c) df"

section \<open>The download functions\<close>

subsection \<open>\<open>excel_downloader\<close>\<close>

definition xlsx_mime :: string where
  "xlsx_mime = ''application/vnd.openxmlformats-officedocument.spreadsheetml.sheet''"

definition excel_warning :: string where
  "excel_warning =
     ''\<newline>        Excel export requires either xlsxwriter or openpyxl package. \<newline>        Install with: \<newline>        ```bash\<newline>        pip install xlsxwriter openpyxl\<newline>        ```\<newline>        ''"

definition excel_error :: string where
  "excel_error = ''Failed to create Excel file with all available engines''"

definition available_engines :: "env \<Rightarrow> engine list" where
  "available_engines env =
     (if XLSXWRITER_AVAILABLE env then [Xlsxwriter] else [])
     @ (if OPENPYXL_AVAILABLE env then [Openpyxl] else [])"

text \<open>
  The loop over the engines. \<open>output\<close> is the one \<open>BytesIO\<close> created before the loop:
  every attempt works on what the attempts before it left there. The exceptions of
  an attempt are those that \<open>except Exception\<close> catches; the widgets themselves are
  taken not to raise.
\<close>

definition excel_button :: "env \<Rightarrow> string \<Rightarrow> bytes \<Rightarrow> ui_event" where
  "excel_button env filename_prefix excel_data =
     DownloadButton ''Download Excel'' (PBytes excel_data)
       (filename_prefix @ ''_'' @ timestr env @ ''.xlsx'') xlsx_mime None"

fun try_engines :: "env \<Rightarrow> dataframe \<Rightarrow> string \<Rightarrow> engine list \<Rightarrow> bytes \<Rightarrow> ui_event list" where
  "try_engines env data filename_prefix [] output = [Error excel_error]"
| "try_engines env data filename_prefix (engine # engines) output =
     (case excel_write env engine data output of
        (output', None) \<Rightarrow> [excel_button env filename_prefix output']
      | (output', Some e) \<Rightarrow> try_engines env data filename_prefix engines output')"

definition excel_downloader :: "env \<Rightarrow> dataframe \<Rightarrow> string \<Rightarrow> ui_event list" where
  "excel_downloader env data filename_prefix =
     (let engines = available_engines env in
      if engines = [] then [Warning excel_warning]
      else try_engines env data filename_prefix engines [])"

subsection \<open>\<open>csv_downloader\<close>\<close>

text \<open>The two select boxes of \<open>csv_downloader\<close> and the values they return.\<close>

datatype delimiter = Comma | Semicolon | Tab | Pipe

datatype encoding = Utf8 | Ascii | Iso8859_1

fun delimiter_char :: "delimiter \<Rightarrow> char" where
  "delimiter_char Comma = CHR '',''"
| "delimiter_char Semicolon = CHR '';''"
| "delimiter_char Tab = CHR 0x09"
| "delimiter_char Pipe = CHR ''|''"

definition csv_downloader :: "env \<Rightarrow> dataframe \<Rightarrow> string \<Rightarrow> delimiter \<Rightarrow> encoding \<Rightarrow> ui_event list" where
  "csv_downloader env data filename_prefix delimiter encoding =
     (let csv = to_csv False (delimiter_char delimiter) data;
          new_filename = filename_prefix @ ''_'' @ timestr env @ ''.csv''
      in [DownloadButton ''Download CSV'' (PStr csv) new_filename ''text/csv''
            (Some (''CSV file with '' @ [delimiter_char delimiter] @ '' delimiter''))])"

subsection \<open>\<open>FileDownloader\<close>\<close>

record file_downloader =
  fd_data :: pyobj
  fd_filename :: string
  fd_file_ext :: string
  fd_kwargs :: csv_kwargs

definition FileDownloader :: "pyobj \<Rightarrow> string \<Rightarrow> string \<Rightarrow> csv_kwargs \<Rightarrow> file_downloader" where
  "FileDownloader data filename file_ext kwargs =
     \<lparr>fd_data = data, fd_filename = filename, fd_file_ext = str_lower file_ext,
      fd_kwargs = kwargs\<rparr>"

definition mime_types :: "(string \<times> string) list" where
  "mime_types =
     [(''txt'', ''text/plain''),
      (''csv'', ''text/csv''),
      (''json'', ''application/json''),
      (''xlsx'', ''application/vnd.openxmlformats-officedocument.spreadsheetml.sheet''),
      (''png'', ''image/png''),
      (''jpg'', ''image/jpeg''),
      (''zip'', ''application/zip'')]"

definition get_mime_type :: "file_downloader \<Rightarrow> string" where
  "get_mime_type self =
     (case map_of mime_types (fd_file_ext self) of
        Some m \<Rightarrow> m
      | None \<Rightarrow> ''application/octet-stream'')"

fun py_str :: "env \<Rightarrow> pyobj \<Rightarrow> string" where
  "py_str env (PStr s) = s"
| "py_str env (PBytes b) = bytes_repr b"
| "py_str env (PFrame df) = frame_repr env df"

definition button :: "env \<Rightarrow> file_downloader \<Rightarrow> pyobj \<Rightarrow> ui_event" where
  "button env self data =
     DownloadButton (''Download as '' @ str_upper (fd_file_ext self)) data
       (fd_filename self @ ''_'' @ timestr env @ ''.'' @ fd_file_ext self)
       (get_mime_type self)
       (Some (''Download file as '' @ str_upper (fd_file_ext self) @ '' format''))"

definition other_data :: "env \<Rightarrow> file_downloader \<Rightarrow> pyobj" where
  "other_data env self =
     (if fd_file_ext self \<in> {''png'', ''jpg''} \<and> PILLOW_AVAILABLE env then fd_data self
      else PBytes (encode (py_str env (fd_data self))))"

definition download :: "env \<Rightarrow> file_downloader \<Rightarrow> ui_event list" where
  "download env self =
     (case fd_data self of
        PFrame df \<Rightarrow>
          if fd_file_ext self = ''csv'' then [button env self (PStr (to_csv_kwargs (fd_kwargs self) df))]
          else if fd_file_ext self = ''xlsx'' then excel_downloader env df (fd_filename self)
          else [button env self (PStr (to_string env df))]
      | PStr s \<Rightarrow> [button env self (other_data env self)]
      | PBytes b \<Rightarrow> [button env self (other_data env self)])"

subsection \<open>\<open>create_zip\<close>\<close>

text \<open>
  A Python \<open>dict\<close> keeps its keys in insertion order and holds each key once:
  assigning to a key that is present replaces its value in place.
\<close>

datatype zip_data = ZStr string | ZBytes bytes

type_synonym py_dict = "(string \<times> zip_data) list"

fun dict_setitem :: "py_dict \<Rightarrow> string \<Rightarrow> zip_data \<Rightarrow> py_dict" where
  "dict_setitem [] k v = [(k, v)]"
| "dict_setitem ((k', v') # d) k v =
     (if k' = k then (k, v) # d else (k', v') # dict_setitem d k v)"

definition dict_literal :: "(string \<times> zip_data) list \<Rightarrow> py_dict" where
  "dict_literal kvs = fold (\<lambda>(k, v) d. dict_setitem d k v) kvs []"

text \<open>
  \<open>zipfile\<close> is modelled as in the standard library of CPython 3.11. The archive is
  kept as the members that \<open>zipfile\<close> holds for it, in the order written. The deflate coding and the byte layout of the container are the library's;
  the model takes from the library and the platform what \<open>zipfile\<close> tests while it
  writes: whether \<open>zlib\<close> is there, the path separator \<open>os.sep\<close>, the year of the local
  time at which a member is written, the position in the file after the members
  written so far, the size of a content once deflated, and the size of the central
  directory.
\<close>

datatype compression = ZIP_STORED | ZIP_DEFLATED

record zip_entry =
  ze_name :: string
  ze_data :: bytes
  ze_compress_type :: compression

record zip_file =
  zf_compression :: compression
  zf_allowZip64 :: bool
  zf_entries :: "zip_entry list"

record zip_layout =
  zlib_available :: bool
  os_sep :: char
  local_year :: "zip_entry list \<Rightarrow> nat"
  header_offset :: "zip_entry list \<Rightarrow> nat"
  deflated_size :: "bytes \<Rightarrow> nat"
  central_dir_size :: "zip_entry list \<Rightarrow> nat"

definition ZIP64_LIMIT :: nat where
  "ZIP64_LIMIT = 2 ^ 31 - 1"

definition ZIP_FILECOUNT_LIMIT :: nat where
  "ZIP_FILECOUNT_LIMIT = 2 ^ 16 - 1"

fun zip_bytes :: "zip_data \<Rightarrow> bytes" where
  "zip_bytes (ZStr s) = encode s"
| "zip_bytes (ZBytes b) = b"

text \<open>
  \<open>ZipInfo\<close> ends the name of a member at its first NUL character and, where the path
  separator of the platform is not the slash, writes a slash for it.
\<close>

definition zip_name :: "zip_layout \<Rightarrow> string \<Rightarrow> string" where
  "zip_name layout file_name =
     (let filename = takeWhile (\<lambda>c. c \<noteq> CHR 0x00) file_name in
      if os_sep layout \<noteq> CHR ''/''
      then map (\<lambda>c. if c = os_sep layout then CHR ''/'' else c) filename
      else filename)"

definition ZipFile :: "compression \<Rightarrow> bool \<Rightarrow> zip_file" where
  "ZipFile compression allowZip64 =
     \<lparr>zf_compression = compression, zf_allowZip64 = allowZip64, zf_entries = []\<rparr>"

text \<open>
  \<open>writestr\<close>, in the order in which \<open>zipfile\<close> tests: a \<open>str\<close> is encoded as UTF-8;
  \<open>ZipInfo\<close> refuses a year before 1980 with \<open>ValueError\<close>; reading the last character
  of an empty member name raises \<open>IndexError\<close>; with ZIP64 switched off, a content of
  more than \<open>ZIP64_LIMIT / 1.05\<close> bytes, a member beyond the 65535th and a member that
  would start beyond \<open>ZIP64_LIMIT\<close> raise \<open>LargeZipFile\<close>; the header has 16 bits for
  the date, which a year after 2107 exceeds, and 16 bits for the length of the encoded
  name, and \<open>struct.pack\<close> raises \<open>struct.error\<close> beyond them; a content that is not
  written as ZIP64 and is longer than \<open>ZIP64_LIMIT\<close> once deflated raises
  \<open>RuntimeError\<close>. A member is added to the archive only when all of this went through.
\<close>

definition writestr :: "zip_layout \<Rightarrow> zip_file \<Rightarrow> string \<Rightarrow> zip_data \<Rightarrow> pyexn + zip_file" where
  "writestr layout zf file_name file_content =
     (let data = zip_bytes file_content;
          filename = zip_name layout file_name;
          year = local_year layout (zf_entries zf);
          zip64 = (100 * ZIP64_LIMIT < 105 * length data)
      in
      if year < 1980 then Inl ValueError
      else if filename = [] then Inl IndexError
      else if \<not> zf_allowZip64 zf \<and> zip64 then Inl LargeZipFile
      else if \<not> zf_allowZip64 zf \<and>
              (ZIP_FILECOUNT_LIMIT \<le> length (zf_entries zf)
               \<or> ZIP64_LIMIT < length data
               \<or> ZIP64_LIMIT < header_offset layout (zf_entries zf)) then Inl LargeZipFile
      else if 2107 < year \<or> 65535 < length (encode filename) then Inl StructError
      else if \<not> zip64 \<and> (ZIP64_LIMIT < length data \<or> ZIP64_LIMIT < deflated_size layout data)
      then Inl RuntimeError
      else Inr (zf\<lparr>zf_entries := zf_entries zf
                  @ [\<lparr>ze_name = filename, ze_data = data,
                      ze_compress_type = zf_compression zf\<rparr>]\<rparr>))"

text \<open>Closing the archive writes the central directory, under the limits of ZIP64.\<close>

definition zip_close :: "zip_layout \<Rightarrow> zip_file \<Rightarrow> pyexn + zip_entry list" where
  "zip_close layout zf =
     (if \<not> zf_allowZip64 zf \<and>
         (ZIP_FILECOUNT_LIMIT < length (zf_entries zf)
          \<or> ZIP64_LIMIT < header_offset layout (zf_entries zf)
          \<or> ZIP64_LIMIT < central_dir_size layout (zf_entries zf)) then Inl LargeZipFile
      else Inr (zf_entries zf))"

text \<open>
  The loop of \<open>create_zip\<close> over the items of the manifest: it stops at the first
  exception, with the archive as it is then.
\<close>

fun write_items :: "zip_layout \<Rightarrow> py_dict \<Rightarrow> zip_file \<Rightarrow> pyexn option \<times> zip_file" where
  "write_items layout [] zip_file = (None, zip_file)"
| "write_items layout ((file_name, file_content) # files) zip_file =
     (case writestr layout zip_file file_name file_content of
        Inl e \<Rightarrow> (Some e, zip_file)
      | Inr zip_file' \<Rightarrow> write_items layout files zip_file')"

text \<open>
  Opening the archive for deflate raises \<open>RuntimeError\<close> when \<open>zlib\<close> is missing. The
  \<open>with\<close> block closes the archive on leaving, also when the loop raised; an exception
  of the closing replaces the one of the loop.
\<close>

definition create_zip :: "zip_layout \<Rightarrow> py_dict \<Rightarrow> pyexn + zip_entry list" where
  "create_zip layout files =
     (if \<not> zlib_available layout then Inl RuntimeError
      else case write_items layout files (ZipFile ZIP_DEFLATED False) of
             (None, zip_file) \<Rightarrow> zip_close layout zip_file
           | (Some e, zip_file) \<Rightarrow>
               (case zip_close layout zip_file of Inl e' \<Rightarrow> Inl e' | Inr _ \<Rightarrow> Inl e))"

text \<open>The member that \<open>writestr\<close> adds for one item of the manifest.\<close>

definition entry_of :: "zip_layout \<Rightarrow> compression \<Rightarrow> string \<times> zip_data \<Rightarrow> zip_entry" where
  "entry_of layout m p =
     \<lparr>ze_name = zip_name layout (fst p), ze_data = zip_bytes (snd p), ze_compress_type = m\<rparr>"

text \<open>
  A manifest fits an archive without ZIP64 when \<open>zlib\<close> is there, it has at most
  65535 items, every member is written in a year from 1980 to 2107, no content is
  longer than \<open>ZIP64_LIMIT / 1.05\<close> or, deflated, than \<open>ZIP64_LIMIT\<close>, and neither a
  member nor the central directory starts or extends beyond \<open>ZIP64_LIMIT\<close>.
\<close>

definition fits_zip32 :: "zip_layout \<Rightarrow> py_dict \<Rightarrow> bool" where
  "fits_zip32 layout files =
     (zlib_available layout
      \<and> length files \<le> ZIP_FILECOUNT_LIMIT
      \<and> list_all (\<lambda>p. 105 * length (zip_bytes (snd p)) \<le> 100 * ZIP64_LIMIT
                       \<and> deflated_size layout (zip_bytes (snd p)) \<le> ZIP64_LIMIT) files
      \<and> list_all (\<lambda>k. 1980 \<le> local_year layout (map (entry_of layout ZIP_DEFLATED) (take k files))
                       \<and> local_year layout (map (entry_of layout ZIP_DEFLATED) (take k files)) \<le> 2107)
           [0..<length files]
      \<and> list_all (\<lambda>k. header_offset layout (map (entry_of layout ZIP_DEFLATED) (take k files))
                         \<le> ZIP64_LIMIT)
           [0..<Suc (length files)]
      \<and> central_dir_size layout (map (entry_of layout ZIP_DEFLATED) files) \<le> ZIP64_LIMIT)"

text \<open>
  A name is kept as it is when it is not empty, holds neither a NUL character nor a
  path separator other than the slash, and is at most 65535 bytes long in UTF-8.
\<close>

definition plain_name :: "zip_layout \<Rightarrow> string \<Rightarrow> bool" where
  "plain_name layout file_name =
     (file_name \<noteq> [] \<and> CHR 0x00 \<notin> set file_name
      \<and> (os_sep layout = CHR ''/'' \<or> os_sep layout \<notin> set file_name)
      \<and> length (encode file_name) \<le> 65535)"

text \<open>
  Extracting an archive is reading its members back by name, as \<open>ZipFile.read\<close>
  does: of two members with one name the later one is what the name gives.
\<close>

definition zip_extract :: "zip_entry list \<Rightarrow> (string \<rightharpoonup> bytes)" where
  "zip_extract entries = fold (\<lambda>e m. m(ze_name e \<mapsto> ze_data e)) entries Map.empty"

definition manifest_pairs :: "py_dict \<Rightarrow> (string \<times> bytes) list" where
  "manifest_pairs files = map (\<lambda>(file_name, file_content). (file_name, zip_bytes file_content)) files"

section \<open>The pages of \<open>main\<close>\<close>

subsection \<open>Text Downloader: the alternative formats\<close>

definition text_alternative_formats :: "env \<Rightarrow> string \<Rightarrow> string \<Rightarrow> ui_event list" where
  "text_alternative_formats env my_text filename =
     download env (FileDownloader (PStr my_text) filename ''txt'' no_kwargs)
     @ download env (FileDownloader (PStr my_text) filename ''json'' no_kwargs)"

subsection \<open>CSV/Excel Tools: the advanced export\<close>

text \<open>
  \<open>df[selected_columns]\<close>: the columns named in the list, in the order of the list
  (every column of that name, when the frame has several); a name that the frame
  does not have raises \<open>KeyError\<close>.
\<close>

definition select_columns :: "dataframe \<Rightarrow> string list \<Rightarrow> pyexn + dataframe" where
  "select_columns df selected =
     (case filter (\<lambda>n. \<not> List.member (map fst (df_columns df)) n) selected of
        [] \<Rightarrow> Inr (df\<lparr>df_columns := concat (map (\<lambda>n. filter (\<lambda>c. fst c = n) (df_columns df)) selected)\<rparr>)
      | n # _ \<Rightarrow> Inl (KeyError n))"

definition advanced_export :: "env \<Rightarrow> dataframe \<Rightarrow> string \<Rightarrow> string list \<Rightarrow> ui_event list" where
  "advanced_export env df filename selected_columns =
     (if selected_columns = [] then []
      else case select_columns df selected_columns of
             Inl e \<Rightarrow> [Error (''Error processing file: '' @ exn_text env e)]
           | Inr filtered_df \<Rightarrow>
               download env (FileDownloader (PFrame filtered_df) (filename @ ''_filtered'') ''csv'' no_kwargs)
               @ download env (FileDownloader (PFrame filtered_df) (filename @ ''_filtered'') ''xlsx'' no_kwargs))"

subsection \<open>Image Tools\<close>

text \<open>
  Pillow: \<open>Image.open\<close> decodes the upload or raises, \<open>image.save(buffer, format=...)\<close>
  encodes into the named format or raises. Nothing in this page catches an exception,
  so a raise ends \<open>main\<close> with that exception.
\<close>

record 'img pillow =
  image_open :: "bytes \<Rightarrow> pyexn + 'img"
  image_save :: "'img \<Rightarrow> string \<Rightarrow> pyexn + bytes"

definition pillow_warning :: string where
  "pillow_warning = ''Image processing requires Pillow package. Install with: pip install Pillow''"

definition image_tools :: "env \<Rightarrow> 'img pillow \<Rightarrow> bytes option \<Rightarrow> string \<Rightarrow> pyexn + ui_event list" where
  "image_tools env pil uploaded_image filename =
     (if \<not> PILLOW_AVAILABLE env then Inr [Warning pillow_warning]
      else case uploaded_image of
             None \<Rightarrow> Inr []
           | Some upload \<Rightarrow>
               (case image_open pil upload of
                  Inl e \<Rightarrow> Inl e
                | Inr img \<Rightarrow>
                    (case image_save pil img ''PNG'' of
                       Inl e \<Rightarrow> Inl e
                     | Inr img_buffer \<Rightarrow>
                         Inr (download env (FileDownloader (PBytes img_buffer) filename ''png'' no_kwargs)
                              @ download env (FileDownloader (PBytes img_buffer) filename ''jpg'' no_kwargs)))))"

section \<open>Concrete environments and inputs\<close>

definition example_env :: env where
  "example_env =
     \<lparr>XLSXWRITER_AVAILABLE = True, OPENPYXL_AVAILABLE = True, PILLOW_AVAILABLE = True,
      timestr = ''20240101-120000'',
      excel_write = (\<lambda>engine data buffer. (buffer @ [0x50, 0x4B], None)),
      to_string = (\<lambda>df. join '' '' (map fst (df_columns df))),
      frame_repr = (\<lambda>df. join '' '' (map fst (df_columns df))),
      exn_text = (\<lambda>e. ''error'')\<rparr>"

text \<open>An environment in which Pillow is missing.\<close>

definition no_pillow_env :: env where
  "no_pillow_env = example_env\<lparr>PILLOW_AVAILABLE := False\<rparr>"

text \<open>An environment in which no spreadsheet engine is installed.\<close>

definition no_engine_env :: env where
  "no_engine_env = example_env\<lparr>XLSXWRITER_AVAILABLE := False, OPENPYXL_AVAILABLE := False\<rparr>"

text \<open>An environment in which openpyxl is the only spreadsheet engine.\<close>

definition openpyxl_only_env :: env where
  "openpyxl_only_env = example_env\<lparr>XLSXWRITER_AVAILABLE := False\<rparr>"

text \<open>
  An environment in which the attempt with xlsxwriter raises after two bytes went
  into the buffer, and the attempt with openpyxl writes three bytes and succeeds.
\<close>

definition stale_env :: env where
  "stale_env = example_env\<lparr>excel_write :=
     (\<lambda>engine data buffer.
        case engine of
          Xlsxwriter \<Rightarrow> (buffer @ [0x50, 0x4B], Some OSError)
        | Openpyxl \<Rightarrow> (buffer @ [1, 2, 3], None))\<rparr>"

text \<open>An environment in which every attempt raises.\<close>

definition failing_env :: env where
  "failing_env = example_env\<lparr>excel_write :=
     (\<lambda>engine data buffer. (buffer @ [0x50, 0x4B], Some OSError))\<rparr>"

text \<open>A frame with the columns a, b, c and one row, under the default row label 0.\<close>

definition abc_frame :: dataframe where
  "abc_frame =
     \<lparr>df_columns = [(''a'', [''1'']), (''b'', [''2'']), (''c'', [''3''])], df_index = [''0'']\<rparr>"

text \<open>A frame whose one cell is the letter U+00E9, which ASCII cannot represent.\<close>

definition accent_frame :: dataframe where
  "accent_frame = \<lparr>df_columns = [(''name'', [[CHR 0xE9]])], df_index = [''0'']\<rparr>"

text \<open>
  A codec for images that are their own pixel bytes: an empty upload does not decode,
  and an encoded image starts with the name of its format.
\<close>

definition toy_pillow :: "bytes pillow" where
  "toy_pillow =
     \<lparr>image_open = (\<lambda>upload. if upload = [] then Inl UnidentifiedImageError else Inr upload),
      image_save = (\<lambda>img fmt. Inr (encode fmt @ img))\<rparr>"

text \<open>The first four bytes of a PNG file.\<close>

definition png_magic :: bytes where
  "png_magic = [0x89, 0x50, 0x4E, 0x47]"

text \<open>
  A platform with \<open>zlib\<close> and the slash as separator, in the year 2024, with a layout
  that counts 30 bytes of header and 46 bytes of directory for each member, with its
  name, and stores the content at its full length.
\<close>

definition example_layout :: zip_layout where
  "example_layout =
     \<lparr>zlib_available = True, os_sep = CHR ''/'', local_year = (\<lambda>es. 2024),
      header_offset = (\<lambda>es. sum_list (map (\<lambda>e. 30 + length (ze_name e) + length (ze_data e)) es)),
      deflated_size = (\<lambda>data. length data),
      central_dir_size = (\<lambda>es. sum_list (map (\<lambda>e. 46 + length (ze_name e)) es))\<rparr>"

text \<open>
  A manifest whose one name holds a NUL character, one whose name is empty, and one
  whose name is 65536 characters long.
\<close>

definition nul_manifest :: py_dict where
  "nul_manifest = [([CHR ''a'', CHR 0x00, CHR ''b''], ZStr ''x'')]"

definition empty_name_manifest :: py_dict where
  "empty_name_manifest = [([], ZStr ''x'')]"

definition long_name_manifest :: py_dict where
  "long_name_manifest = [(replicate 65536 (CHR ''n''), ZStr ''x'')]"

definition hello_manifest :: py_dict where
  "hello_manifest =
     [(''data.txt'', ZStr ''hello''),
      (''data.json'', ZStr ([CHR ''{'', CHR 0x22] @ ''content'' @ [CHR 0x22, CHR '':'', CHR ''['', CHR 0x22]
                            @ ''hello'' @ [CHR 0x22, CHR '']'', CHR ''}'']))]"

section \<open>MIME type and file name of a download\<close>

lemma mime_table:
  "get_mime_type (FileDownloader d f ''txt'' kw) = ''text/plain''"
  "get_mime_type (FileDownloader d f ''csv'' kw) = ''text/csv''"
  "get_mime_type (FileDownloader d f ''json'' kw) = ''application/json''"
  "get_mime_type (FileDownloader d f ''xlsx'' kw)
     = ''application/vnd.openxmlformats-officedocument.spreadsheetml.sheet''"
  "get_mime_type (FileDownloader d f ''png'' kw) = ''image/png''"
  "get_mime_type (FileDownloader d f ''jpg'' kw) = ''image/jpeg''"
  "get_mime_type (FileDownloader d f ''zip'' kw) = ''application/zip''"
  by (simp_all add: get_mime_type_def FileDownloader_def str_lower_def chr_lower_def mime_types_def)

lemma mime_default:
  "fd_file_ext self \<notin> {''txt'', ''csv'', ''json'', ''xlsx'', ''png'', ''jpg'', ''zip''}
   \<Longrightarrow> get_mime_type self = ''application/octet-stream''"
  by (simp add: get_mime_type_def mime_types_def)

lemma lower_enum:
  "e \<in> {''txt'', ''csv'', ''json'', ''xlsx'', ''png'', ''jpg'', ''zip''} \<Longrightarrow> str_lower e = e"
  by (auto simp: str_lower_def chr_lower_def)

lemma try_engines_buttons:
  "b \<in> set (try_engines env data p engines buf) \<Longrightarrow> is_download b \<Longrightarrow>
   btn_mime b = xlsx_mime \<and> btn_file_name b = p @ ''_'' @ timestr env @ ''.xlsx''"
  by (induction engines arbitrary: buf)
     (auto simp: excel_button_def split: prod.splits option.splits)

lemma excel_downloader_buttons:
  "b \<in> set (excel_downloader env data p) \<Longrightarrow> is_download b \<Longrightarrow>
   btn_mime b = xlsx_mime \<and> btn_file_name b = p @ ''_'' @ timestr env @ ''.xlsx''"
  using try_engines_buttons by (auto simp: excel_downloader_def Let_def split: if_splits)

lemma download_buttons:
  "b \<in> set (download env self) \<Longrightarrow> is_download b \<Longrightarrow>
   btn_mime b = get_mime_type self \<and>
   btn_file_name b = fd_filename self @ ''_'' @ timestr env @ ''.'' @ fd_file_ext self"
  by (auto simp: download_def button_def get_mime_type_def mime_types_def xlsx_mime_def
      dest: excel_downloader_buttons split: pyobj.splits if_splits)

text \<open>
  C1. The MIME type of a \<open>FileDownloader\<close> is the one of the fixed table for the seven
  formats and \<open>application/octet-stream\<close> for any other extension; every download
  button that \<open>download\<close> produces carries that MIME type and the file name
  \<open>{filename}_{timestr}.{file_ext}\<close>, where \<open>file_ext\<close> is the extension the object
  holds (the constructor's argument in lower case, which for the seven formats is the
  argument itself).
\<close>

theorem download_mime_and_extension:
  "get_mime_type (FileDownloader d f ''txt'' kw) = ''text/plain'' \<and>
   get_mime_type (FileDownloader d f ''csv'' kw) = ''text/csv'' \<and>
   get_mime_type (FileDownloader d f ''json'' kw) = ''application/json'' \<and>
   get_mime_type (FileDownloader d f ''xlsx'' kw)
     = ''application/vnd.openxmlformats-officedocument.spreadsheetml.sheet'' \<and>
   get_mime_type (FileDownloader d f ''png'' kw) = ''image/png'' \<and>
   get_mime_type (FileDownloader d f ''jpg'' kw) = ''image/jpeg'' \<and>
   get_mime_type (FileDownloader d f ''zip'' kw) = ''application/zip'' \<and>
   (fd_file_ext (FileDownloader d f e kw) \<notin> {''txt'', ''csv'', ''json'', ''xlsx'', ''png'', ''jpg'', ''zip''}
      \<longrightarrow> get_mime_type (FileDownloader d f e kw) = ''application/octet-stream'') \<and>
   (e \<in> {''txt'', ''csv'', ''json'', ''xlsx'', ''png'', ''jpg'', ''zip''}
      \<longrightarrow> fd_file_ext (FileDownloader d f e kw) = e) \<and>
   (\<forall>b \<in> set (download env (FileDownloader d f e kw)). is_download b \<longrightarrow>
      btn_mime b = get_mime_type (FileDownloader d f e kw) \<and>
      btn_file_name b = f @ ''_'' @ timestr env @ ''.'' @ fd_file_ext (FileDownloader d f e kw))"
proof -
  have ext: "e \<in> {''txt'', ''csv'', ''json'', ''xlsx'', ''png'', ''jpg'', ''zip''}
      \<longrightarrow> fd_file_ext (FileDownloader d f e kw) = e"
    using lower_enum [of e] by (simp add: FileDownloader_def)
  have btn: "\<forall>b \<in> set (download env (FileDownloader d f e kw)). is_download b \<longrightarrow>
      btn_mime b = get_mime_type (FileDownloader d f e kw) \<and>
      btn_file_name b = f @ ''_'' @ timestr env @ ''.'' @ fd_file_ext (FileDownloader d f e kw)"
    using download_buttons [of _ env "FileDownloader d f e kw"]
    by (auto simp: FileDownloader_def)
  show ?thesis
    using mime_table [of d f kw] mime_default [of "FileDownloader d f e kw"] ext btn
    by blast
qed

lemma download_hello_json:
  "download example_env (FileDownloader (PStr ''hello'') ''document'' ''json'' no_kwargs)
   = [DownloadButton ''Download as JSON'' (PBytes [0x68, 0x65, 0x6C, 0x6C, 0x6F])
        ''document_20240101-120000.json'' ''application/json''
        (Some ''Download file as JSON format'')]"
  by code_simp

theorem download_mime_and_extension_witness:
  "''json'' \<in> {''txt'', ''csv'', ''json'', ''xlsx'', ''png'', ''jpg'', ''zip''} \<and>
   fd_file_ext (FileDownloader (PStr ''hello'') ''document'' ''json'' no_kwargs) = ''json'' \<and>
   (\<exists>b \<in> set (download example_env (FileDownloader (PStr ''hello'') ''document'' ''json'' no_kwargs)).
      is_download b \<and> btn_mime b = ''application/json'' \<and>
      btn_file_name b = ''document'' @ ''_'' @ timestr example_env @ ''.'' @ ''json'')"
proof -
  let ?self = "FileDownloader (PStr ''hello'') ''document'' ''json'' no_kwargs"
  let ?b = "DownloadButton ''Download as JSON'' (PBytes [0x68, 0x65, 0x6C, 0x6C, 0x6F])
        ''document_20240101-120000.json'' ''application/json''
        (Some ''Download file as JSON format'')"
  note th = download_mime_and_extension
      [of "PStr ''hello''" "''document''" no_kwargs "''json''" example_env]
  have mem: "''json'' \<in> {''txt'', ''csv'', ''json'', ''xlsx'', ''png'', ''jpg'', ''zip''}"
    by simp
  from th have mime: "get_mime_type ?self = ''application/json''"
    by blast
  from th mem have ext: "fd_file_ext ?self = ''json''"
    by blast
  from th have btn: "\<forall>b \<in> set (download example_env ?self). is_download b \<longrightarrow>
      btn_mime b = get_mime_type ?self \<and>
      btn_file_name b = ''document'' @ ''_'' @ timestr example_env @ ''.'' @ fd_file_ext ?self"
    by blast
  have "?b \<in> set (download example_env ?self)"
    by (simp only: download_hello_json list.set insertI1)
  moreover have "is_download ?b"
    by simp
  ultimately have "is_download ?b \<and> btn_mime ?b = ''application/json'' \<and>
      btn_file_name ?b = ''document'' @ ''_'' @ timestr example_env @ ''.'' @ ''json''"
    using btn mime ext by metis
  with \<open>?b \<in> set (download example_env ?self)\<close> mem ext show ?thesis
    by blast
qed

section \<open>Spreadsheet export\<close>

lemma try_engines_all_fail:
  "\<forall>engine \<in> set engines. \<forall>buf. snd (excel_write env engine data buf) \<noteq> None \<Longrightarrow>
   try_engines env data p engines buf0 = [Error excel_error]"
proof (induction engines arbitrary: buf0)
  case Nil
  then show ?case by simp
next
  case (Cons engine engines)
  from Cons.prems have "snd (excel_write env engine data buf0) \<noteq> None"
    by simp
  then obtain out e where "excel_write env engine data buf0 = (out, Some e)"
    by (cases "excel_write env engine data buf0") auto
  moreover from Cons have "try_engines env data p engines out = [Error excel_error]"
    by simp
  ultimately show ?case by simp
qed

lemma excel_primary_first:
  "XLSXWRITER_AVAILABLE env \<Longrightarrow> snd (excel_write env Xlsxwriter data []) = None \<Longrightarrow>
   excel_downloader env data p = [excel_button env p (fst (excel_write env Xlsxwriter data []))]"
  by (auto simp: excel_downloader_def available_engines_def split: prod.splits option.splits)

lemma excel_fall_through:
  "XLSXWRITER_AVAILABLE env \<Longrightarrow> OPENPYXL_AVAILABLE env \<Longrightarrow>
   snd (excel_write env Xlsxwriter data []) \<noteq> None \<Longrightarrow>
   excel_downloader env data p =
     (case excel_write env Openpyxl data (fst (excel_write env Xlsxwriter data [])) of
        (out, None) \<Rightarrow> [excel_button env p out]
      | (out, Some e) \<Rightarrow> [Error excel_error])"
  by (auto simp: excel_downloader_def available_engines_def split: prod.splits option.splits)

lemma excel_secondary_only:
  "\<not> XLSXWRITER_AVAILABLE env \<Longrightarrow> OPENPYXL_AVAILABLE env \<Longrightarrow>
   excel_downloader env data p =
     (case excel_write env Openpyxl data [] of
        (out, None) \<Rightarrow> [excel_button env p out]
      | (out, Some e) \<Rightarrow> [Error excel_error])"
  by (auto simp: excel_downloader_def available_engines_def split: prod.splits option.splits)

lemma excel_unavailable:
  "\<not> XLSXWRITER_AVAILABLE env \<Longrightarrow> \<not> OPENPYXL_AVAILABLE env \<Longrightarrow>
   excel_downloader env data p = [Warning excel_warning]"
  by (simp add: excel_downloader_def available_engines_def)

lemma excel_all_fail:
  assumes "XLSXWRITER_AVAILABLE env \<or> OPENPYXL_AVAILABLE env"
    and "\<forall>engine \<in> set (available_engines env). \<forall>buf. snd (excel_write env engine data buf) \<noteq> None"
  shows "excel_downloader env data p = [Error excel_error]"
proof -
  from assms(1) have "available_engines env \<noteq> []"
    by (auto simp: available_engines_def)
  then show ?thesis
    using try_engines_all_fail [OF assms(2)] by (simp add: excel_downloader_def)
qed

text \<open>
  C6. \<open>excel_downloader\<close> tries xlsxwriter first when it is installed; when that
  attempt raises and openpyxl is installed, openpyxl is tried next and decides the
  outcome; when only openpyxl is installed it is tried alone. With no engine installed
  the function shows the warning, and when every attempt of every installed engine
  raises it shows the error: in both cases it returns normally and produces no
  download button.
\<close>

theorem excel_downloader_engine_fallback:
  "(XLSXWRITER_AVAILABLE env \<and> snd (excel_write env Xlsxwriter data []) = None \<longrightarrow>
      excel_downloader env data p
        = [excel_button env p (fst (excel_write env Xlsxwriter data []))]) \<and>
   (XLSXWRITER_AVAILABLE env \<and> OPENPYXL_AVAILABLE env \<and>
    snd (excel_write env Xlsxwriter data []) \<noteq> None \<longrightarrow>
      excel_downloader env data p =
        (case excel_write env Openpyxl data (fst (excel_write env Xlsxwriter data [])) of
           (out, None) \<Rightarrow> [excel_button env p out]
         | (out, Some e) \<Rightarrow> [Error excel_error])) \<and>
   (\<not> XLSXWRITER_AVAILABLE env \<and> OPENPYXL_AVAILABLE env \<longrightarrow>
      excel_downloader env data p =
        (case excel_write env Openpyxl data [] of
           (out, None) \<Rightarrow> [excel_button env p out]
         | (out, Some e) \<Rightarrow> [Error excel_error])) \<and>
   (\<not> XLSXWRITER_AVAILABLE env \<and> \<not> OPENPYXL_AVAILABLE env \<longrightarrow>
      excel_downloader env data p = [Warning excel_warning] \<and>
      filter is_download (excel_downloader env data p) = []) \<and>
   ((XLSXWRITER_AVAILABLE env \<or> OPENPYXL_AVAILABLE env) \<and>
    (\<forall>engine \<in> set (available_engines env). \<forall>buf. snd (excel_write env engine data buf) \<noteq> None) \<longrightarrow>
      excel_downloader env data p = [Error excel_error] \<and>
      filter is_download (excel_downloader env data p) = [])"
  using excel_primary_first [of env data p] excel_fall_through [of env data p]
    excel_secondary_only [of env data p] excel_unavailable [of env data p]
    excel_all_fail [of env data p]
  by simp

theorem excel_downloader_engine_fallback_witness:
  "excel_downloader example_env abc_frame ''data'' = [excel_button example_env ''data'' [0x50, 0x4B]] \<and>
   excel_downloader stale_env abc_frame ''data'' = [excel_button stale_env ''data'' [0x50, 0x4B, 1, 2, 3]] \<and>
   excel_downloader openpyxl_only_env abc_frame ''data'' = [excel_button openpyxl_only_env ''data'' [0x50, 0x4B]] \<and>
   excel_downloader no_engine_env abc_frame ''data'' = [Warning excel_warning] \<and>
   filter is_download (excel_downloader no_engine_env abc_frame ''data'') = [] \<and>
   excel_downloader failing_env abc_frame ''data'' = [Error excel_error] \<and>
   filter is_download (excel_downloader failing_env abc_frame ''data'') = []"
proof -
  have a: "excel_downloader example_env abc_frame ''data'' = [excel_button example_env ''data'' [0x50, 0x4B]]"
    using excel_downloader_engine_fallback [of example_env abc_frame "''data''"]
    by (simp add: example_env_def)
  have b: "excel_downloader stale_env abc_frame ''data'' = [excel_button stale_env ''data'' [0x50, 0x4B, 1, 2, 3]]"
    using excel_downloader_engine_fallback [of stale_env abc_frame "''data''"]
    by (simp add: stale_env_def example_env_def)
  have c: "excel_downloader openpyxl_only_env abc_frame ''data'' = [excel_button openpyxl_only_env ''data'' [0x50, 0x4B]]"
    using excel_downloader_engine_fallback [of openpyxl_only_env abc_frame "''data''"]
    by (simp add: openpyxl_only_env_def example_env_def)
  have d: "excel_downloader no_engine_env abc_frame ''data'' = [Warning excel_warning] \<and>
     filter is_download (excel_downloader no_engine_env abc_frame ''data'') = []"
    using excel_downloader_engine_fallback [of no_engine_env abc_frame "''data''"]
    by (simp add: no_engine_env_def example_env_def)
  have e: "excel_downloader failing_env abc_frame ''data'' = [Error excel_error] \<and>
     filter is_download (excel_downloader failing_env abc_frame ''data'') = []"
    using excel_downloader_engine_fallback [of failing_env abc_frame "''data''"]
    by (simp add: failing_env_def example_env_def available_engines_def)
  from a b c d e show ?thesis by blast
qed

text \<open>
  C9. In \<open>stale_env\<close> the attempt with xlsxwriter raises after it wrote two bytes, and
  openpyxl, which on an empty buffer produces three bytes, succeeds: the download
  button then serves all five bytes, the two of the failed attempt first, because the
  two attempts share the one buffer created before the loop.
\<close>

theorem excel_stale_bytes_served:
  "excel_downloader stale_env abc_frame ''data''
     = [DownloadButton ''Download Excel'' (PBytes [0x50, 0x4B, 1, 2, 3])
          ''data_20240101-120000.xlsx''
          ''application/vnd.openxmlformats-officedocument.spreadsheetml.sheet'' None] \<and>
   excel_write stale_env Xlsxwriter abc_frame [] = ([0x50, 0x4B], Some OSError) \<and>
   excel_write stale_env Openpyxl abc_frame [] = ([1, 2, 3], None)"
  by (simp add: excel_downloader_def available_engines_def stale_env_def example_env_def
      excel_button_def xlsx_mime_def)

section \<open>Text export\<close>

lemma download_text_json:
  "download env (FileDownloader (PStr my_text) filename ''json'' kw)
     = [DownloadButton ''Download as JSON'' (PBytes (encode my_text))
          (filename @ ''_'' @ timestr env @ ''.json'') ''application/json''
          (Some ''Download file as JSON format'')]"
  by (simp add: download_def FileDownloader_def button_def other_data_def
      get_mime_type_def mime_types_def)
     code_simp

text \<open>
  C2. The text page exports \<open>hello\<close> under the target format json as the five bytes of
  \<open>hello\<close> itself, with the MIME type \<open>application/json\<close>: the text is not wrapped
  into a JSON object.
\<close>

theorem json_download_serves_raw_text:
  "text_alternative_formats example_env ''hello'' ''document''
     = [DownloadButton ''Download as TXT'' (PBytes [0x68, 0x65, 0x6C, 0x6C, 0x6F])
          ''document_20240101-120000.txt'' ''text/plain''
          (Some ''Download file as TXT format''),
        DownloadButton ''Download as JSON'' (PBytes [0x68, 0x65, 0x6C, 0x6C, 0x6F])
          ''document_20240101-120000.json'' ''application/json''
          (Some ''Download file as JSON format'')] \<and>
   encode ''hello'' = [0x68, 0x65, 0x6C, 0x6C, 0x6F]"
  by code_simp

section \<open>Image formats in \<open>FileDownloader\<close>\<close>

lemma download_not_frame:
  "\<not> is_frame d \<Longrightarrow>
   download env (FileDownloader d f e kw)
     = [button env (FileDownloader d f e kw) (other_data env (FileDownloader d f e kw))]"
  by (cases d) (simp_all add: download_def FileDownloader_def)

text \<open>
  For every payload that is not a DataFrame and every extension that is \<open>png\<close> or
  \<open>jpg\<close> in lower case, the download button carries the payload itself when the Pillow
  flag is set, and the bytes \<open>str(payload).encode()\<close> when it is not.
\<close>

lemma download_non_frame_data:
  "\<not> is_frame d \<Longrightarrow> str_lower e \<in> {''png'', ''jpg''} \<Longrightarrow>
   map btn_data (download env (FileDownloader d f e kw))
     = [if PILLOW_AVAILABLE env then d else PBytes (encode (py_str env d))]"
proof -
  assume nf: "\<not> is_frame d" and ext: "str_lower e \<in> {''png'', ''jpg''}"
  let ?self = "FileDownloader d f e kw"
  have sel: "fd_file_ext ?self = str_lower e" "fd_data ?self = d"
    by (simp_all add: FileDownloader_def)
  have "other_data env ?self = (if PILLOW_AVAILABLE env then d else PBytes (encode (py_str env d)))"
    using ext unfolding other_data_def sel by auto
  then show ?thesis
    by (simp add: download_not_frame [OF nf] button_def)
qed

text \<open>
  C10. For every byte buffer exported through \<open>FileDownloader\<close> with the extension
  \<open>png\<close> or \<open>jpg\<close>: when the Pillow flag is set, the download button carries the buffer
  and serves its bytes unchanged; when the flag is not set, it carries and serves
  \<open>str(payload).encode()\<close>, the UTF-8 bytes of the \<open>repr\<close> of the buffer.
\<close>

theorem download_image_bytes:
  "str_lower e \<in> {''png'', ''jpg''} \<Longrightarrow>
   map btn_data (download env (FileDownloader (PBytes b) f e kw))
     = [PBytes (if PILLOW_AVAILABLE env then b else encode (py_str env (PBytes b)))] \<and>
   map (\<lambda>ev. served_bytes (btn_data ev)) (download env (FileDownloader (PBytes b) f e kw))
     = [Some (if PILLOW_AVAILABLE env then b else encode (py_str env (PBytes b)))] \<and>
   py_str env (PBytes b) = bytes_repr b"
proof -
  assume ext: "str_lower e \<in> {''png'', ''jpg''}"
  have "map btn_data (download env (FileDownloader (PBytes b) f e kw))
     = [if PILLOW_AVAILABLE env then PBytes b else PBytes (encode (py_str env (PBytes b)))]"
    using ext by (intro download_non_frame_data) simp_all
  then have d: "map btn_data (download env (FileDownloader (PBytes b) f e kw))
     = [PBytes (if PILLOW_AVAILABLE env then b else encode (py_str env (PBytes b)))]"
    by simp
  have "map (\<lambda>ev. served_bytes (btn_data ev)) (download env (FileDownloader (PBytes b) f e kw))
     = map served_bytes (map btn_data (download env (FileDownloader (PBytes b) f e kw)))"
    by simp
  also have "\<dots> = [Some (if PILLOW_AVAILABLE env then b else encode (py_str env (PBytes b)))]"
    unfolding d by simp
  finally show ?thesis
    using d by simp
qed

theorem download_image_bytes_witness:
  "str_lower ''png'' \<in> {''png'', ''jpg''} \<and>
   map btn_data (download example_env (FileDownloader (PBytes png_magic) ''image'' ''png'' no_kwargs))
     = [PBytes [0x89, 0x50, 0x4E, 0x47]] \<and>
   map (\<lambda>ev. served_bytes (btn_data ev))
       (download no_pillow_env (FileDownloader (PBytes png_magic) ''image'' ''png'' no_kwargs))
     = [Some [98, 39, 92, 120, 56, 57, 80, 78, 71, 39]]"
proof -
  have ext: "str_lower ''png'' \<in> {''png'', ''jpg''}"
    by code_simp
  have r: "encode (py_str no_pillow_env (PBytes png_magic)) = [98, 39, 92, 120, 56, 57, 80, 78, 71, 39]"
    by code_simp
  have p1: "PILLOW_AVAILABLE example_env" and p2: "\<not> PILLOW_AVAILABLE no_pillow_env"
    by (simp_all add: example_env_def no_pillow_env_def)
  from download_image_bytes [OF ext, of example_env png_magic "''image''" no_kwargs] p1
  have a: "map btn_data (download example_env (FileDownloader (PBytes png_magic) ''image'' ''png'' no_kwargs))
     = [PBytes [0x89, 0x50, 0x4E, 0x47]]"
    by (simp add: png_magic_def)
  from download_image_bytes [OF ext, of no_pillow_env png_magic "''image''" no_kwargs] p2 r
  have b: "map (\<lambda>ev. served_bytes (btn_data ev))
       (download no_pillow_env (FileDownloader (PBytes png_magic) ''image'' ''png'' no_kwargs))
     = [Some [98, 39, 92, 120, 56, 57, 80, 78, 71, 39]]"
    by simp
  from ext a b show ?thesis by blast
qed

section \<open>CSV export\<close>

text \<open>The encoding chosen in the second select box has no effect on what is produced.\<close>

lemma csv_downloader_encoding_ignored:
  "csv_downloader env data p delimiter encoding = csv_downloader env data p delimiter encoding'"
  by (simp add: csv_downloader_def)

lemma csv_downloader_data:
  "map btn_data (csv_downloader env data p delimiter encoding)
     = [PStr (to_csv False (delimiter_char delimiter) data)]"
  by (simp add: csv_downloader_def)

text \<open>
  C5. With the comma as delimiter and ASCII as encoding, a frame whose cell is the
  letter U+00E9 is exported without an error: the button carries the text with that
  letter, which is served as UTF-8 (the bytes C3 A9), exactly as under the choice
  UTF-8.
\<close>

theorem csv_encoding_choice_unused:
  "csv_downloader example_env accent_frame ''data'' Comma Ascii
     = [DownloadButton ''Download CSV'' (PStr (''name'' @ [CHR 0x0A, CHR 0xE9, CHR 0x0A]))
          ''data_20240101-120000.csv'' ''text/csv'' (Some ''CSV file with , delimiter'')] \<and>
   served_bytes (PStr (''name'' @ [CHR 0x0A, CHR 0xE9, CHR 0x0A]))
     = Some [0x6E, 0x61, 0x6D, 0x65, 0x0A, 0xC3, 0xA9, 0x0A] \<and>
   csv_downloader example_env accent_frame ''data'' Comma Ascii
     = csv_downloader example_env accent_frame ''data'' Comma Utf8"
  by code_simp

lemma filter_name_distinct:
  "distinct (map fst cols) \<Longrightarrow> n \<in> set (map fst cols) \<Longrightarrow>
   map fst (filter (\<lambda>c. fst c = n) cols) = [n]"
proof (induction cols)
  case Nil
  then show ?case by simp
next
  case (Cons c cols)
  show ?case
  proof (cases "fst c = n")
    case True
    have "fst x \<noteq> n" if "x \<in> set cols" for x
    proof
      assume "fst x = n"
      with that True have "fst c \<in> set (map fst cols)"
        by (metis image_eqI set_map)
      with Cons.prems(1) show False by simp
    qed
    then have "filter (\<lambda>c. fst c = n) cols = []"
      by (simp add: filter_empty_conv)
    with True show ?thesis by simp
  next
    case False
    with Cons show ?thesis by auto
  qed
qed

text \<open>
  Selecting names that the frame has, from a frame whose column names differ, gives
  the columns in the order of the selection.
\<close>

lemma select_columns_order:
  assumes "distinct (map fst (df_columns df))"
    and "set selected \<subseteq> set (map fst (df_columns df))"
  shows "\<exists>filtered. select_columns df selected = Inr filtered \<and>
           map fst (df_columns filtered) = selected \<and> df_index filtered = df_index df"
proof -
  have none: "filter (\<lambda>n. \<not> List.member (map fst (df_columns df)) n) selected = []"
    using assms(2) by (auto simp: filter_empty_conv)
  have "map fst (concat (map (\<lambda>n. filter (\<lambda>c. fst c = n) (df_columns df)) selected)) = selected"
    using assms(2)
  proof (induction selected)
    case Nil
    then show ?case by simp
  next
    case (Cons n selected)
    then show ?case
      using filter_name_distinct [OF assms(1), of n] by simp
  qed
  with none show ?thesis
    by (simp add: select_columns_def)
qed

text \<open>
  C4. Selecting the columns a and c of a frame with the columns a, b, c, the advanced
  export produces a CSV text whose header is \<open>,a,c\<close>: \<open>to_csv\<close> is called without
  \<open>index=False\<close> and writes the row labels as a first column under an empty name.
  \<open>csv_downloader\<close>, which passes \<open>index=False\<close>, writes the header \<open>a,c\<close> for the
  same selection.
\<close>

theorem advanced_export_writes_index_column:
  "map btn_data (advanced_export example_env abc_frame ''data_export'' [''a'', ''c''])
     = [PStr ('',a,c'' @ [CHR 0x0A] @ ''0,1,3'' @ [CHR 0x0A]), PBytes [0x50, 0x4B]] \<and>
   csv_header ('',a,c'' @ [CHR 0x0A] @ ''0,1,3'' @ [CHR 0x0A]) = '',a,c'' \<and>
   select_columns abc_frame [''a'', ''c'']
     = Inr \<lparr>df_columns = [(''a'', [''1'']), (''c'', [''3''])], df_index = [''0'']\<rparr> \<and>
   map btn_data (csv_downloader example_env
        \<lparr>df_columns = [(''a'', [''1'']), (''c'', [''3''])], df_index = [''0'']\<rparr> ''data_export'' Comma Utf8)
     = [PStr (''a,c'' @ [CHR 0x0A] @ ''1,3'' @ [CHR 0x0A])]"
  by code_simp

section \<open>Image export\<close>

text \<open>An upload that does not decode ends the page with the exception, and nothing is shown.\<close>

lemma image_tools_decode_failure:
  "PILLOW_AVAILABLE env \<Longrightarrow> image_open pil upload = Inl e \<Longrightarrow>
   image_tools env pil (Some upload) filename = Inl e"
  by (simp add: image_tools_def)

text \<open>
  Whatever the codec does, the two buttons of the page carry the same bytes: the
  result of saving the image as PNG.
\<close>

lemma image_tools_same_bytes:
  "PILLOW_AVAILABLE env \<Longrightarrow> image_open pil upload = Inr img \<Longrightarrow>
   image_save pil img ''PNG'' = Inr buf \<Longrightarrow>
   image_tools env pil (Some upload) filename = Inr evs \<Longrightarrow>
   map btn_data evs = [PBytes buf, PBytes buf] \<and>
   map btn_mime evs = [''image/png'', ''image/jpeg'']"
  by (auto simp: image_tools_def download_def FileDownloader_def button_def other_data_def
      get_mime_type_def mime_types_def str_lower_def chr_lower_def)

text \<open>
  C7. For an upload that decodes, the button for \<open>jpg\<close> carries the PNG encoding of the
  image, under the name \<open>.jpg\<close> and the MIME type \<open>image/jpeg\<close>; the image is never
  saved as JPEG. An upload that does not decode ends the page with
  \<open>UnidentifiedImageError\<close> and no button.
\<close>

theorem jpg_download_serves_png_bytes:
  "image_tools example_env toy_pillow (Some png_magic) ''image''
     = Inr [DownloadButton ''Download as PNG'' (PBytes (encode ''PNG'' @ png_magic))
              ''image_20240101-120000.png'' ''image/png'' (Some ''Download file as PNG format''),
            DownloadButton ''Download as JPG'' (PBytes (encode ''PNG'' @ png_magic))
              ''image_20240101-120000.jpg'' ''image/jpeg'' (Some ''Download file as JPG format'')] \<and>
   image_save toy_pillow png_magic ''JPEG'' = Inr (encode ''JPEG'' @ png_magic) \<and>
   encode ''PNG'' @ png_magic \<noteq> encode ''JPEG'' @ png_magic \<and>
   image_tools example_env toy_pillow (Some []) ''image'' = Inl UnidentifiedImageError"
  by code_simp

section \<open>Archive bundling\<close>

lemma zip_name_plain: "plain_name layout n \<Longrightarrow> zip_name layout n = n"
proof -
  assume p: "plain_name layout n"
  then have tw: "takeWhile (\<lambda>c. c \<noteq> CHR 0x00) n = n"
    by (auto simp: plain_name_def)
  have "map (\<lambda>c. if c = os_sep layout then CHR ''/'' else c) n = n"
    if "os_sep layout \<noteq> CHR ''/''"
  proof (rule map_idI)
    fix c assume "c \<in> set n"
    with p that have "c \<noteq> os_sep layout"
      by (auto simp: plain_name_def)
    then show "(if c = os_sep layout then CHR ''/'' else c) = c"
      by simp
  qed
  then show ?thesis
    unfolding zip_name_def Let_def tw by simp
qed

lemma writestr_ok:
  assumes "\<not> zf_allowZip64 zf" "plain_name layout n"
    and "105 * length (zip_bytes c) \<le> 100 * ZIP64_LIMIT"
    and "deflated_size layout (zip_bytes c) \<le> ZIP64_LIMIT"
    and "1980 \<le> local_year layout (zf_entries zf)" "local_year layout (zf_entries zf) \<le> 2107"
    and "length (zf_entries zf) < ZIP_FILECOUNT_LIMIT"
    and "header_offset layout (zf_entries zf) \<le> ZIP64_LIMIT"
  shows "writestr layout zf n c
     = Inr (zf\<lparr>zf_entries := zf_entries zf @ [entry_of layout (zf_compression zf) (n, c)]\<rparr>)"
proof -
  from assms(3) have "length (zip_bytes c) \<le> ZIP64_LIMIT"
    by linarith
  moreover from assms(2) have "n \<noteq> []" "length (encode n) \<le> 65535"
    by (simp_all add: plain_name_def)
  ultimately show ?thesis
    using assms by (simp add: writestr_def entry_of_def Let_def not_less zip_name_plain)
qed

lemma write_items_ok:
  assumes "\<not> zf_allowZip64 zf"
    and "list_all (\<lambda>p. plain_name layout (fst p)) files"
    and "list_all (\<lambda>p. 105 * length (zip_bytes (snd p)) \<le> 100 * ZIP64_LIMIT
                       \<and> deflated_size layout (zip_bytes (snd p)) \<le> ZIP64_LIMIT) files"
    and "length (zf_entries zf) + length files \<le> ZIP_FILECOUNT_LIMIT"
    and "\<forall>k < length files.
           1980 \<le> local_year layout (zf_entries zf @ map (entry_of layout (zf_compression zf)) (take k files))
           \<and> local_year layout (zf_entries zf @ map (entry_of layout (zf_compression zf)) (take k files)) \<le> 2107"
    and "\<forall>k \<le> length files.
           header_offset layout (zf_entries zf @ map (entry_of layout (zf_compression zf)) (take k files))
             \<le> ZIP64_LIMIT"
  shows "write_items layout files zf
     = (None, zf\<lparr>zf_entries := zf_entries zf @ map (entry_of layout (zf_compression zf)) files\<rparr>)"
  using assms
proof (induction files arbitrary: zf)
  case Nil
  then show ?case by simp
next
  case (Cons p files)
  obtain n c where p: "p = (n, c)" by (cases p)
  let ?zf = "zf\<lparr>zf_entries := zf_entries zf @ [entry_of layout (zf_compression zf) (n, c)]\<rparr>"
  from Cons.prems(6) have off0: "header_offset layout (zf_entries zf) \<le> ZIP64_LIMIT"
    by (metis append_Nil2 le0 list.simps(8) take_0)
  from Cons.prems(5) have yr0: "1980 \<le> local_year layout (zf_entries zf)"
      "local_year layout (zf_entries zf) \<le> 2107"
    by (metis append_Nil2 length_Cons list.simps(8) take_0 zero_less_Suc)+
  have w: "writestr layout zf n c = Inr ?zf"
    using Cons.prems(1-4) off0 yr0 by (intro writestr_ok) (simp_all add: p)
  have offs: "\<forall>k \<le> length files.
       header_offset layout (zf_entries ?zf @ map (entry_of layout (zf_compression ?zf)) (take k files))
         \<le> ZIP64_LIMIT"
  proof (intro allI impI)
    fix k assume "k \<le> length files"
    then have "Suc k \<le> length (p # files)" by simp
    with Cons.prems(6) have "header_offset layout
        (zf_entries zf @ map (entry_of layout (zf_compression zf)) (take (Suc k) (p # files))) \<le> ZIP64_LIMIT"
      by blast
    then show "header_offset layout (zf_entries ?zf @ map (entry_of layout (zf_compression ?zf)) (take k files))
         \<le> ZIP64_LIMIT"
      by (simp add: p)
  qed
  have yrs: "\<forall>k < length files.
       1980 \<le> local_year layout (zf_entries ?zf @ map (entry_of layout (zf_compression ?zf)) (take k files))
       \<and> local_year layout (zf_entries ?zf @ map (entry_of layout (zf_compression ?zf)) (take k files)) \<le> 2107"
  proof (intro allI impI)
    fix k assume "k < length files"
    then have "Suc k < length (p # files)" by simp
    with Cons.prems(5) have
      "1980 \<le> local_year layout (zf_entries zf @ map (entry_of layout (zf_compression zf)) (take (Suc k) (p # files)))
       \<and> local_year layout (zf_entries zf @ map (entry_of layout (zf_compression zf)) (take (Suc k) (p # files))) \<le> 2107"
      by blast
    then show "1980 \<le> local_year layout (zf_entries ?zf @ map (entry_of layout (zf_compression ?zf)) (take k files))
       \<and> local_year layout (zf_entries ?zf @ map (entry_of layout (zf_compression ?zf)) (take k files)) \<le> 2107"
      by (simp add: p)
  qed
  have "write_items layout files ?zf
      = (None, ?zf\<lparr>zf_entries := zf_entries ?zf @ map (entry_of layout (zf_compression ?zf)) files\<rparr>)"
    using Cons.prems(1-4) offs yrs by (intro Cons.IH) simp_all
  with w show ?case
    by (simp add: p)
qed

lemma create_zip_ok:
  assumes "fits_zip32 layout files" and "list_all (\<lambda>p. plain_name layout (fst p)) files"
  shows "create_zip layout files = Inr (map (entry_of layout ZIP_DEFLATED) files)"
proof -
  let ?zf = "ZipFile ZIP_DEFLATED False"
  have offs: "\<forall>k \<le> length files.
      header_offset layout (map (entry_of layout ZIP_DEFLATED) (take k files)) \<le> ZIP64_LIMIT"
    using assms(1) by (auto simp: fits_zip32_def list_all_iff simp del: upt_Suc)
  have yrs: "\<forall>k < length files.
      1980 \<le> local_year layout (map (entry_of layout ZIP_DEFLATED) (take k files))
      \<and> local_year layout (map (entry_of layout ZIP_DEFLATED) (take k files)) \<le> 2107"
    using assms(1) by (auto simp: fits_zip32_def list_all_iff)
  have "write_items layout files ?zf
      = (None, ?zf\<lparr>zf_entries := zf_entries ?zf @ map (entry_of layout (zf_compression ?zf)) files\<rparr>)"
    using assms offs yrs by (intro write_items_ok) (simp_all add: fits_zip32_def ZipFile_def)
  moreover have "header_offset layout (map (entry_of layout ZIP_DEFLATED) files) \<le> ZIP64_LIMIT"
    using offs by (metis order_refl take_all)
  ultimately show ?thesis
    using assms(1) by (simp add: create_zip_def zip_close_def fits_zip32_def ZipFile_def not_less)
qed

lemma entries_are_pairs:
  "list_all (\<lambda>p. plain_name layout (fst p)) files \<Longrightarrow>
   map (\<lambda>e. (ze_name e, ze_data e)) (map (entry_of layout m) files) = manifest_pairs files"
  by (induction files) (auto simp: manifest_pairs_def entry_of_def zip_name_plain)

lemma entries_deflated:
  "list_all (\<lambda>e. ze_compress_type e = m) (map (entry_of layout m) files)"
  by (simp add: list_all_iff entry_of_def)

lemma fold_extract:
  "fold (\<lambda>e m. m(ze_name e \<mapsto> ze_data e)) entries m0
     = m0 ++ map_of (rev (map (\<lambda>e. (ze_name e, ze_data e)) entries))"
  by (induction entries arbitrary: m0) (auto simp: map_add_def fun_eq_iff split: option.splits)

lemma zip_extract_map_of:
  "zip_extract entries = map_of (rev (map (\<lambda>e. (ze_name e, ze_data e)) entries))"
  by (simp add: zip_extract_def fold_extract)

lemma map_of_rev_distinct:
  assumes "distinct (map fst xs)"
  shows "map_of (rev xs) = map_of xs"
proof -
  have "distinct (map fst (rev xs))"
    using assms by (metis distinct_rev rev_map)
  then show ?thesis
    using assms by (simp add: map_of_inject_set)
qed

lemma zip_extract_entries:
  assumes "list_all (\<lambda>p. plain_name layout (fst p)) files" and "distinct (map fst files)"
  shows "zip_extract (map (entry_of layout m) files) = map_of (manifest_pairs files)"
proof -
  have "map fst (manifest_pairs files) = map fst files"
    by (simp add: manifest_pairs_def case_prod_beta)
  with assms(2) have "distinct (map fst (manifest_pairs files))"
    by simp
  then have "map_of (rev (manifest_pairs files)) = map_of (manifest_pairs files)"
    by (rule map_of_rev_distinct)
  then show ?thesis
    unfolding zip_extract_map_of entries_are_pairs [OF assms(1)] .
qed

lemma map_of_manifest_pairs:
  "map_of (manifest_pairs files) k = map_option zip_bytes (map_of files k)"
  by (induction files) (auto simp: manifest_pairs_def)

lemma map_of_dict_setitem:
  "map_of (dict_setitem d k v) = (map_of d)(k \<mapsto> v)"
  by (induction d k v rule: dict_setitem.induct) (auto simp: fun_eq_iff)

lemma keys_dict_setitem:
  "set (map fst (dict_setitem d k v)) = insert k (set (map fst d))"
  by (induction d k v rule: dict_setitem.induct) auto

lemma distinct_dict_setitem:
  "distinct (map fst d) \<Longrightarrow> distinct (map fst (dict_setitem d k v))"
  by (induction d k v rule: dict_setitem.induct) (auto simp: keys_dict_setitem simp flip: set_map)

lemma distinct_dict_literal_aux:
  "distinct (map fst d) \<Longrightarrow> distinct (map fst (fold (\<lambda>(k, v) d. dict_setitem d k v) kvs d))"
  by (induction kvs arbitrary: d) (auto simp: distinct_dict_setitem)

lemma distinct_dict_literal: "distinct (map fst (dict_literal kvs))"
  by (simp add: dict_literal_def distinct_dict_literal_aux)

lemma map_of_dict_literal_aux:
  "map_of (fold (\<lambda>(k, v) d. dict_setitem d k v) kvs d) = map_of d ++ map_of (rev kvs)"
  by (induction kvs arbitrary: d)
     (auto simp: map_of_dict_setitem fun_eq_iff map_add_def split: option.splits)

lemma map_of_dict_literal: "map_of (dict_literal kvs) = map_of (rev kvs)"
  by (simp add: dict_literal_def map_of_dict_literal_aux)

lemma writestr_entries:
  "writestr layout zf n c = Inr zf' \<Longrightarrow>
   zf_entries zf' = zf_entries zf @ [entry_of layout (zf_compression zf) (n, c)] \<and>
   zf_compression zf' = zf_compression zf \<and> zf_allowZip64 zf' = zf_allowZip64 zf \<and>
   (\<not> zf_allowZip64 zf \<longrightarrow> length (zf_entries zf) < ZIP_FILECOUNT_LIMIT)"
  by (auto simp: writestr_def entry_of_def Let_def split: if_splits)

lemma writestr_twice:
  assumes "writestr layout zf n c1 = Inr zf1" and "writestr layout zf1 n c2 = Inr zf2"
  shows "zip_extract (zf_entries zf2) (zip_name layout n) = Some (zip_bytes c2)"
  using writestr_entries [OF assms(1)] writestr_entries [OF assms(2)]
  by (simp add: zip_extract_map_of entry_of_def)

text \<open>With ZIP64 switched off, the loop cannot write more than 65535 members.\<close>

lemma write_items_count:
  "write_items layout files zf = (None, zf') \<Longrightarrow> \<not> zf_allowZip64 zf \<Longrightarrow>
   length (zf_entries zf') = length (zf_entries zf) + length files \<and>
   (files \<noteq> [] \<longrightarrow> length (zf_entries zf') \<le> ZIP_FILECOUNT_LIMIT)"
proof (induction files arbitrary: zf)
  case Nil
  then show ?case by simp
next
  case (Cons p files)
  obtain n c where p: "p = (n, c)" by (cases p)
  from Cons.prems(1) obtain zf1 where w: "writestr layout zf n c = Inr zf1"
    and r: "write_items layout files zf1 = (None, zf')"
    by (auto simp: p split: sum.splits)
  note e = writestr_entries [OF w]
  from e Cons.prems(2) have "\<not> zf_allowZip64 zf1" by simp
  from Cons.IH [OF r this] e Cons.prems(2) show ?case
    by (cases files) auto
qed

lemma create_zip_too_many:
  assumes "ZIP_FILECOUNT_LIMIT < length files"
  shows "\<exists>e. create_zip layout files = Inl e"
proof (cases "zlib_available layout")
  case False
  then show ?thesis by (simp add: create_zip_def)
next
  case True
  show ?thesis
  proof (cases "write_items layout files (ZipFile ZIP_DEFLATED False)")
    case (Pair r zf')
    show ?thesis
    proof (cases r)
      case None
      with Pair write_items_count [of layout files "ZipFile ZIP_DEFLATED False" zf'] assms
      have "length (zf_entries zf') = length files \<and> length (zf_entries zf') \<le> ZIP_FILECOUNT_LIMIT"
        by (cases files) (auto simp: ZipFile_def)
      with assms show ?thesis by simp
    next
      case (Some e)
      with Pair True show ?thesis
        by (auto simp: create_zip_def split: sum.splits)
    qed
  qed
qed

text \<open>A member name of more than 65535 bytes does not fit the header.\<close>

lemma writestr_long_name:
  "writestr layout zf n c = Inr zf' \<Longrightarrow> length (encode (zip_name layout n)) \<le> 65535"
  by (auto simp: writestr_def Let_def split: if_splits)

text \<open>
  C8, as amended. For every manifest that fits an archive without ZIP64 and whose
  names are kept as they are (not empty, no NUL character, no path separator other
  than the slash, at most 65535 bytes in UTF-8), \<open>create_zip\<close> returns an archive whose
  members are all stored with deflate compression and are exactly the pairs of the
  manifest, name by name and content by content (a \<open>str\<close> as its UTF-8 bytes), in the
  order of the manifest; a \<open>dict\<close> holds each name once, and extracting the archive
  then gives back that mapping. A name that is assigned twice in the \<open>dict\<close> from which
  the manifest is built, or written by two calls of \<open>writestr\<close>, is extracted with the
  later content.
\<close>

theorem create_zip_entries_are_manifest:
  "(fits_zip32 layout files \<and> list_all (\<lambda>p. plain_name layout (fst p)) files \<longrightarrow>
      (\<exists>entries. create_zip layout files = Inr entries \<and>
         list_all (\<lambda>e. ze_compress_type e = ZIP_DEFLATED) entries \<and>
         map (\<lambda>e. (ze_name e, ze_data e)) entries = manifest_pairs files \<and>
         (distinct (map fst files) \<longrightarrow> zip_extract entries = map_of (manifest_pairs files)))) \<and>
   (fits_zip32 layout (dict_literal (kvs @ [(name, c1)] @ kvs' @ [(name, c2)])) \<and>
    list_all (\<lambda>p. plain_name layout (fst p)) (dict_literal (kvs @ [(name, c1)] @ kvs' @ [(name, c2)])) \<longrightarrow>
      (\<exists>entries. create_zip layout (dict_literal (kvs @ [(name, c1)] @ kvs' @ [(name, c2)])) = Inr entries \<and>
         zip_extract entries name = Some (zip_bytes c2))) \<and>
   (writestr layout zf name c1 = Inr zf1 \<and> writestr layout zf1 name c2 = Inr zf2 \<longrightarrow>
      zip_extract (zf_entries zf2) (zip_name layout name) = Some (zip_bytes c2))"
proof -
  let ?d = "dict_literal (kvs @ [(name, c1)] @ kvs' @ [(name, c2)])"
  have a: "\<exists>entries. create_zip layout fs = Inr entries \<and>
         list_all (\<lambda>e. ze_compress_type e = ZIP_DEFLATED) entries \<and>
         map (\<lambda>e. (ze_name e, ze_data e)) entries = manifest_pairs fs \<and>
         (distinct (map fst fs) \<longrightarrow> zip_extract entries = map_of (manifest_pairs fs))"
    if "fits_zip32 layout fs" "list_all (\<lambda>p. plain_name layout (fst p)) fs" for fs
    using create_zip_ok [OF that] entries_deflated [of ZIP_DEFLATED layout fs]
      entries_are_pairs [OF that(2), of ZIP_DEFLATED]
      zip_extract_entries [OF that(2), of ZIP_DEFLATED]
    by blast
  have b: "\<exists>entries. create_zip layout ?d = Inr entries \<and> zip_extract entries name = Some (zip_bytes c2)"
    if "fits_zip32 layout ?d" "list_all (\<lambda>p. plain_name layout (fst p)) ?d"
  proof -
    from a [OF that] distinct_dict_literal obtain entries where
      e: "create_zip layout ?d = Inr entries" "zip_extract entries = map_of (manifest_pairs ?d)"
      by blast
    have "map_of (manifest_pairs ?d) name = Some (zip_bytes c2)"
      by (simp add: map_of_manifest_pairs map_of_dict_literal)
    with e show ?thesis by simp
  qed
  from a [of files] b writestr_twice [of layout zf name c1 zf1 c2 zf2] show ?thesis
    by blast
qed

lemma hello_fits: "fits_zip32 example_layout hello_manifest"
  by (simp add: fits_zip32_def hello_manifest_def example_layout_def ZIP64_LIMIT_def
      ZIP_FILECOUNT_LIMIT_def entry_of_def zip_name_def encode_def utf8_char_def)

lemma hello_plain: "list_all (\<lambda>p. plain_name example_layout (fst p)) hello_manifest"
  by (simp add: hello_manifest_def plain_name_def example_layout_def encode_def utf8_char_def)

lemma hello_pairs:
  "manifest_pairs hello_manifest
     = [(''data.txt'', [0x68, 0x65, 0x6C, 0x6C, 0x6F]),
        (''data.json'', [0x7B, 0x22, 0x63, 0x6F, 0x6E, 0x74, 0x65, 0x6E, 0x74, 0x22, 0x3A, 0x5B,
                         0x22, 0x68, 0x65, 0x6C, 0x6C, 0x6F, 0x22, 0x5D, 0x7D])]"
  by code_simp

lemma twice_dict:
  "dict_literal ([] @ [(''data.txt'', ZStr ''hello'')] @ [] @ [(''data.txt'', ZStr ''bye'')])
     = [(''data.txt'', ZStr ''bye'')]"
  by code_simp

lemma twice_fits: "fits_zip32 example_layout [(''data.txt'', ZStr ''bye'')]"
  by (simp add: fits_zip32_def example_layout_def ZIP64_LIMIT_def
      ZIP_FILECOUNT_LIMIT_def entry_of_def zip_name_def encode_def utf8_char_def)

theorem create_zip_entries_are_manifest_witness:
  "fits_zip32 example_layout hello_manifest \<and>
   list_all (\<lambda>p. plain_name example_layout (fst p)) hello_manifest \<and>
   distinct (map fst hello_manifest) \<and>
   (\<exists>entries. create_zip example_layout hello_manifest = Inr entries \<and>
      list_all (\<lambda>e. ze_compress_type e = ZIP_DEFLATED) entries \<and>
      map (\<lambda>e. (ze_name e, ze_data e)) entries
        = [(''data.txt'', [0x68, 0x65, 0x6C, 0x6C, 0x6F]),
           (''data.json'', [0x7B, 0x22, 0x63, 0x6F, 0x6E, 0x74, 0x65, 0x6E, 0x74, 0x22, 0x3A, 0x5B,
                            0x22, 0x68, 0x65, 0x6C, 0x6C, 0x6F, 0x22, 0x5D, 0x7D])] \<and>
      zip_extract entries
        = map_of [(''data.txt'', [0x68, 0x65, 0x6C, 0x6C, 0x6F]),
           (''data.json'', [0x7B, 0x22, 0x63, 0x6F, 0x6E, 0x74, 0x65, 0x6E, 0x74, 0x22, 0x3A, 0x5B,
                            0x22, 0x68, 0x65, 0x6C, 0x6C, 0x6F, 0x22, 0x5D, 0x7D])]) \<and>
   (\<exists>entries. create_zip example_layout
        (dict_literal ([] @ [(''data.txt'', ZStr ''hello'')] @ [] @ [(''data.txt'', ZStr ''bye'')]))
        = Inr entries \<and>
      zip_extract entries ''data.txt'' = Some [0x62, 0x79, 0x65])"
proof -
  have d: "distinct (map fst hello_manifest)"
    by (simp add: hello_manifest_def)
  have b: "zip_bytes (ZStr ''bye'') = [0x62, 0x79, 0x65]"
    by code_simp
  have tp: "list_all (\<lambda>p. plain_name example_layout (fst p)) [(''data.txt'', ZStr ''bye'')]"
    by (simp add: plain_name_def example_layout_def encode_def utf8_char_def)
  note th = create_zip_entries_are_manifest
    [of example_layout hello_manifest "[]" "''data.txt''" "ZStr ''hello''" "[]" "ZStr ''bye''"]
  from th hello_fits hello_plain d have 1:
    "\<exists>entries. create_zip example_layout hello_manifest = Inr entries \<and>
       list_all (\<lambda>e. ze_compress_type e = ZIP_DEFLATED) entries \<and>
       map (\<lambda>e. (ze_name e, ze_data e)) entries = manifest_pairs hello_manifest \<and>
       zip_extract entries = map_of (manifest_pairs hello_manifest)"
    by blast
  from th twice_fits tp have 2:
    "\<exists>entries. create_zip example_layout
        (dict_literal ([] @ [(''data.txt'', ZStr ''hello'')] @ [] @ [(''data.txt'', ZStr ''bye'')]))
        = Inr entries \<and>
      zip_extract entries ''data.txt'' = Some (zip_bytes (ZStr ''bye''))"
    unfolding twice_dict by blast
  from hello_fits hello_plain d 1 2 show ?thesis
    unfolding hello_pairs b by blast
qed

lemma encode_replicate_ascii:
  "encode (replicate k (CHR ''n'')) = replicate k 0x6E"
  by (induction k) (simp_all add: encode_def utf8_char_def)

lemma long_name_raises: "create_zip example_layout long_name_manifest = Inl StructError"
proof -
  have n: "zip_name example_layout (replicate 65536 (CHR ''n'')) = replicate 65536 (CHR ''n'')"
    by (simp add: zip_name_def example_layout_def)
  have "writestr example_layout (ZipFile ZIP_DEFLATED False) (replicate 65536 (CHR ''n'')) (ZStr ''x'')
      = Inl StructError"
    unfolding writestr_def Let_def n encode_replicate_ascii
    by (simp add: example_layout_def ZipFile_def ZIP64_LIMIT_def ZIP_FILECOUNT_LIMIT_def
        encode_def utf8_char_def)
  then show ?thesis
    by (simp add: create_zip_def long_name_manifest_def zip_close_def example_layout_def ZipFile_def
        ZIP64_LIMIT_def ZIP_FILECOUNT_LIMIT_def)
qed

text \<open>
  For the manifest with the one name \<open>a\<close>, NUL, \<open>b\<close> the archive holds a member named
  \<open>a\<close>, and nothing under the name of the manifest; for the manifest with the empty
  name \<open>create_zip\<close> raises \<open>IndexError\<close>, and for the one with the name of 65536
  characters it raises \<open>struct.error\<close>.
\<close>

theorem create_zip_renames_and_rejects:
  "create_zip example_layout nul_manifest
     = Inr [\<lparr>ze_name = ''a'', ze_data = [0x78], ze_compress_type = ZIP_DEFLATED\<rparr>] \<and>
   manifest_pairs nul_manifest = [([CHR ''a'', CHR 0x00, CHR ''b''], [0x78])] \<and>
   zip_extract [\<lparr>ze_name = ''a'', ze_data = [0x78], ze_compress_type = ZIP_DEFLATED\<rparr>]
     [CHR ''a'', CHR 0x00, CHR ''b''] = None \<and>
   create_zip example_layout empty_name_manifest = Inl IndexError \<and>
   create_zip example_layout long_name_manifest = Inl StructError"
  using long_name_raises
  by (simp add: create_zip_def nul_manifest_def empty_name_manifest_def ZipFile_def writestr_def
      zip_close_def zip_name_def example_layout_def ZIP64_LIMIT_def ZIP_FILECOUNT_LIMIT_def
      manifest_pairs_def zip_extract_def encode_def utf8_char_def)

end
